theory Spec2Isabelle
  imports Main
begin

section \<open>Identity v2 tokens: results.go\<close>

text \<open>
  A shallow embedding of \<^verbatim>\<open>openstack/identity/v2/tokens/results.go\<close>: the catalog
  model, the endpoint resolver \<^verbatim>\<open>LocateEndpointURL\<close> and the two decode operations of
  \<^verbatim>\<open>CreateResult\<close>. A Go function returning \<^verbatim>\<open>(T, error)\<close> is a function into
  \<open>error + T\<close>: \<open>Inl err\<close> is the pair of the zero value (\<^verbatim>\<open>""\<close> or \<^verbatim>\<open>nil\<close>) and the
  error \<open>err\<close>, \<open>Inr v\<close> is the pair of \<open>v\<close> and \<^verbatim>\<open>nil\<close>.
\<close>

subsection \<open>Catalog model\<close>

record Endpoint =
  TenantID :: string
  PublicURL :: string
  InternalURL :: string
  AdminURL :: string
  Region :: string
  VersionID :: string
  VersionInfo :: string
  VersionList :: string

record CatalogEntry =
  Name :: string
  Type :: string
  Endpoints :: "Endpoint list"

record ServiceCatalog =
  Entries :: "CatalogEntry list"

text \<open>
  Modelled from the spec: \<^verbatim>\<open>gophercloud.Availability\<close> and its three constants are declared
  in the parent package. The spec gives three recognised values (Public, Internal, Admin);
  the \<^verbatim>\<open>switch\<close> of the resolver has a \<^verbatim>\<open>default\<close> branch that prints the value with
  \<^verbatim>\<open>%s\<close>, so any other value is kept with its text.
\<close>

datatype Availability =
  AvailabilityPublic
| AvailabilityInternal
| AvailabilityAdmin
| AvailabilityOther string

text \<open>
  Modelled from the spec: \<^verbatim>\<open>gophercloud.EndpointOpts\<close> is declared in the parent package;
  these are the four fields the resolver reads.
\<close>

record EndpointOpts =
  opts_Type :: string
  opts_Name :: string
  opts_Region :: string
  opts_Availability :: Availability

subsection \<open>Errors\<close>

text \<open>
  The two \<^verbatim>\<open>fmt.Errorf\<close> calls of the resolver are kept as their format arguments:
  \<open>ErrorfDiscovered n eps\<close> is
  \<^verbatim>\<open>fmt.Errorf("Discovered %d matching endpoints: %#v", n, eps)\<close> and
  \<open>ErrorfUnexpectedAvailability a\<close> is
  \<^verbatim>\<open>fmt.Errorf("Unexpected availability in endpoint query: %s", a)\<close>.
  \<open>DecodeError\<close> and \<open>ParseError\<close> are the failures of the structural decode and of the
  timestamp parse; \<open>UpstreamError\<close> is any error captured by the transport.
\<close>

datatype error =
  ErrEndpointNotFound
| ErrorfDiscovered nat "Endpoint list"
| ErrorfUnexpectedAvailability Availability
| DecodeError string
| ParseError string
| UpstreamError string

subsection \<open>LocateEndpointURL\<close>

text \<open>
  The inner loop (lines 145--149): every endpoint of one entry that passes the region test
  is appended to the accumulator.
\<close>

definition append_region_matches :: "EndpointOpts \<Rightarrow> CatalogEntry \<Rightarrow> Endpoint list \<Rightarrow> Endpoint list" where
  "append_region_matches opts entry endpoints =
     fold (\<lambda>endpoint acc.
             if opts_Region opts = [] \<or> Region endpoint = opts_Region opts
             then acc @ [endpoint] else acc)
          (Endpoints entry) endpoints"

text \<open>The outer loop (lines 142--151), starting from the empty slice.\<close>

definition matching_endpoints :: "ServiceCatalog \<Rightarrow> EndpointOpts \<Rightarrow> Endpoint list" where
  "matching_endpoints catalog opts =
     fold (\<lambda>entry acc.
             if Type entry = opts_Type opts \<and> (opts_Name opts = [] \<or> Name entry = opts_Name opts)
             then append_region_matches opts entry acc else acc)
          (Entries catalog) []"

text \<open>
  Lines 154--175. \<open>NormalizeURL\<close> stands for \<^verbatim>\<open>gophercloud.NormalizeURL\<close>, which is
  declared in the parent package: it is a parameter of the model. The \<^verbatim>\<open>range\<close> loop of
  line 162 returns in its first iteration; with no iteration, control reaches line 175.
  The catalog is the value the pointer argument refers to.
\<close>

definition LocateEndpointURL ::
  "(string \<Rightarrow> string) \<Rightarrow> ServiceCatalog \<Rightarrow> EndpointOpts \<Rightarrow> error + string" where
  "LocateEndpointURL NormalizeURL catalog opts =
     (let endpoints = matching_endpoints catalog opts in
      if length endpoints = 0 then Inl ErrEndpointNotFound
      else if length endpoints > 1 then Inl (ErrorfDiscovered (length endpoints) endpoints)
      else (case endpoints of
              [] \<Rightarrow> Inl ErrEndpointNotFound
            | endpoint # _ \<Rightarrow>
                (case opts_Availability opts of
                   AvailabilityPublic \<Rightarrow> Inr (NormalizeURL (PublicURL endpoint))
                 | AvailabilityInternal \<Rightarrow> Inr (NormalizeURL (InternalURL endpoint))
                 | AvailabilityAdmin \<Rightarrow> Inr (NormalizeURL (AdminURL endpoint))
                 | AvailabilityOther s \<Rightarrow>
                     Inl (ErrorfUnexpectedAvailability (opts_Availability opts)))))"

text \<open>
  The filtering as the specification words it: keep the entries that agree on type and,
  when a name is asked for, on name; of each kept entry keep the endpoints that agree on
  region when one is asked for; flatten in traversal order.
\<close>

definition entry_matches :: "EndpointOpts \<Rightarrow> CatalogEntry \<Rightarrow> bool" where
  "entry_matches opts entry \<longleftrightarrow>
     Type entry = opts_Type opts \<and> (opts_Name opts = [] \<or> Name entry = opts_Name opts)"

definition endpoint_matches :: "EndpointOpts \<Rightarrow> Endpoint \<Rightarrow> bool" where
  "endpoint_matches opts endpoint \<longleftrightarrow>
     opts_Region opts = [] \<or> Region endpoint = opts_Region opts"

definition spec_filtered_endpoints :: "ServiceCatalog \<Rightarrow> EndpointOpts \<Rightarrow> Endpoint list" where
  "spec_filtered_endpoints catalog opts =
     concat (map (\<lambda>entry. filter (endpoint_matches opts) (Endpoints entry))
                 (filter (entry_matches opts) (Entries catalog)))"

text \<open>The URL field that belongs to a recognised availability.\<close>

fun url_for :: "Availability \<Rightarrow> Endpoint \<Rightarrow> string option" where
  "url_for AvailabilityPublic endpoint = Some (PublicURL endpoint)"
| "url_for AvailabilityInternal endpoint = Some (InternalURL endpoint)"
| "url_for AvailabilityAdmin endpoint = Some (AdminURL endpoint)"
| "url_for (AvailabilityOther s) endpoint = None"

subsection \<open>Payloads and the result wrapper\<close>

text \<open>
  Modelled from the spec: \<^verbatim>\<open>gophercloud.CommonResult\<close> is declared in the parent package.
  Its \<^verbatim>\<open>Resp\<close> field is the untyped, tree-shaped response body
  (\<^verbatim>\<open>map[string]interface{}\<close>), its \<^verbatim>\<open>Err\<close> field the captured error (\<open>None\<close> is
  \<^verbatim>\<open>nil\<close>). A node of the tree is what the JSON decoder leaves behind: nil, a bool, a
  number (only its kind matters: no decode target of this file is numeric), a string, a
  slice or a map. A map is an association list read with \<open>map_of\<close>.
\<close>

datatype val =
  VNil
| VBool bool
| VNumber int
| VString string
| VArray "val list"
| VObject "(string \<times> val) list"

record CreateResult =
  Resp :: "(string \<times> val) list"
  Err :: "error option"

text \<open>
  Modelled from the spec: the expiry instant. \<^verbatim>\<open>time.Time\<close> belongs to the standard
  library; the instant is kept as its UTC calendar fields down to the millisecond.
\<close>

record Time =
  t_year :: nat
  t_month :: nat
  t_day :: nat
  t_hour :: nat
  t_minute :: nat
  t_second :: nat
  t_millisecond :: nat

text \<open>
  \<^verbatim>\<open>tenants.Tenant\<close> is declared in a sibling package and is opaque here: it is the type
  parameter \<open>'t\<close>.
\<close>

record 't Token =
  ID :: string
  ExpiresAt :: Time
  Tenant :: 't

text \<open>The anonymous \<^verbatim>\<open>response\<close> structs of the two decode operations, flattened.\<close>

record 't token_response =
  token_Expires :: string
  token_ID :: string
  token_Tenant :: 't

record catalog_response =
  access_Entries :: "CatalogEntry list"

subsection \<open>ExtractToken and ExtractServiceCatalog\<close>

text \<open>
  Lines 79--109. \<open>Decode\<close> stands for \<^verbatim>\<open>mapstructure.Decode(result.Resp, &response)\<close>
  and \<open>Parse\<close> for \<^verbatim>\<open>time.Parse(gophercloud.RFC3339Milli, \<dots>)\<close>: a third-party library,
  and a standard-library call on a constant of the parent package. Both are parameters.
\<close>

definition ExtractToken ::
  "((string \<times> val) list \<Rightarrow> error + 't token_response) \<Rightarrow> (string \<Rightarrow> error + Time)
     \<Rightarrow> CreateResult \<Rightarrow> error + 't Token" where
  "ExtractToken Decode Parse result =
     (case Err result of
        Some err \<Rightarrow> Inl err
      | None \<Rightarrow>
          (case Decode (Resp result) of
             Inl err \<Rightarrow> Inl err
           | Inr response \<Rightarrow>
               (case Parse (token_Expires response) of
                  Inl err \<Rightarrow> Inl err
                | Inr expiresTs \<Rightarrow>
                    Inr \<lparr>ID = token_ID response, ExpiresAt = expiresTs,
                         Tenant = token_Tenant response\<rparr>)))"

text \<open>Lines 112--129.\<close>

definition ExtractServiceCatalog ::
  "((string \<times> val) list \<Rightarrow> error + catalog_response) \<Rightarrow> CreateResult \<Rightarrow> error + ServiceCatalog" where
  "ExtractServiceCatalog Decode result =
     (case Err result of
        Some err \<Rightarrow> Inl err
      | None \<Rightarrow>
          (case Decode (Resp result) of
             Inl err \<Rightarrow> Inl err
           | Inr response \<Rightarrow> Inr \<lparr>Entries = access_Entries response\<rparr>))"

text \<open>Line 132.\<close>

definition createErr :: "error \<Rightarrow> CreateResult" where
  "createErr err = \<lparr>Resp = [], Err = Some err\<rparr>"

subsection \<open>The structural decode\<close>

text \<open>
  Modelled from the spec: \<^verbatim>\<open>mapstructure.Decode\<close> is a third-party library. The spec
  describes it as structural decoding against field names: a field is looked up by its
  name; an absent (or nil) field leaves the zero value of the target, so an absent string
  is the empty string, an absent collection is empty and an absent record is the record of
  zero values; unknown fields are ignored; a field whose shape does not match its target
  (a non-string for a string, a non-sequence for a sequence, a non-record for a record) is
  a \<open>DecodeError\<close>, here carrying the name of the field. The first failure is reported.
\<close>

definition bindE :: "error + 'a \<Rightarrow> ('a \<Rightarrow> error + 'b) \<Rightarrow> error + 'b" where
  "bindE m f = (case m of Inl err \<Rightarrow> Inl err | Inr x \<Rightarrow> f x)"

fun mapE :: "('a \<Rightarrow> error + 'b) \<Rightarrow> 'a list \<Rightarrow> error + 'b list" where
  "mapE f [] = Inr []"
| "mapE f (x # xs) = bindE (f x) (\<lambda>y. bindE (mapE f xs) (\<lambda>ys. Inr (y # ys)))"

fun decode_string :: "string \<Rightarrow> val option \<Rightarrow> error + string" where
  "decode_string name None = Inr []"
| "decode_string name (Some VNil) = Inr []"
| "decode_string name (Some (VString s)) = Inr s"
| "decode_string name (Some v) = Inl (DecodeError name)"

fun decode_slice :: "string \<Rightarrow> (val \<Rightarrow> error + 'a) \<Rightarrow> val option \<Rightarrow> error + 'a list" where
  "decode_slice name decode_elem None = Inr []"
| "decode_slice name decode_elem (Some VNil) = Inr []"
| "decode_slice name decode_elem (Some (VArray vs)) = mapE decode_elem vs"
| "decode_slice name decode_elem (Some v) = Inl (DecodeError name)"

fun decode_struct ::
  "string \<Rightarrow> 'a \<Rightarrow> ((string \<times> val) list \<Rightarrow> error + 'a) \<Rightarrow> val option \<Rightarrow> error + 'a" where
  "decode_struct name zero decode_fields None = Inr zero"
| "decode_struct name zero decode_fields (Some VNil) = Inr zero"
| "decode_struct name zero decode_fields (Some (VObject m)) = decode_fields m"
| "decode_struct name zero decode_fields (Some v) = Inl (DecodeError name)"

definition zero_Endpoint :: Endpoint where
  "zero_Endpoint =
     \<lparr>TenantID = [], PublicURL = [], InternalURL = [], AdminURL = [], Region = [],
      VersionID = [], VersionInfo = [], VersionList = []\<rparr>"

definition decode_Endpoint_fields :: "(string \<times> val) list \<Rightarrow> error + Endpoint" where
  "decode_Endpoint_fields m =
     bindE (decode_string ''tenantId'' (map_of m ''tenantId'')) (\<lambda>tenantId.
     bindE (decode_string ''publicURL'' (map_of m ''publicURL'')) (\<lambda>publicURL.
     bindE (decode_string ''internalURL'' (map_of m ''internalURL'')) (\<lambda>internalURL.
     bindE (decode_string ''adminURL'' (map_of m ''adminURL'')) (\<lambda>adminURL.
     bindE (decode_string ''region'' (map_of m ''region'')) (\<lambda>region.
     bindE (decode_string ''versionId'' (map_of m ''versionId'')) (\<lambda>versionId.
     bindE (decode_string ''versionInfo'' (map_of m ''versionInfo'')) (\<lambda>versionInfo.
     bindE (decode_string ''versionList'' (map_of m ''versionList'')) (\<lambda>versionList.
     Inr \<lparr>TenantID = tenantId, PublicURL = publicURL, InternalURL = internalURL,
          AdminURL = adminURL, Region = region, VersionID = versionId,
          VersionInfo = versionInfo, VersionList = versionList\<rparr>))))))))"

definition decode_Endpoint :: "val \<Rightarrow> error + Endpoint" where
  "decode_Endpoint v = decode_struct ''endpoints'' zero_Endpoint decode_Endpoint_fields (Some v)"

definition zero_CatalogEntry :: CatalogEntry where
  "zero_CatalogEntry = \<lparr>Name = [], Type = [], Endpoints = []\<rparr>"

definition decode_CatalogEntry_fields :: "(string \<times> val) list \<Rightarrow> error + CatalogEntry" where
  "decode_CatalogEntry_fields m =
     bindE (decode_string ''name'' (map_of m ''name'')) (\<lambda>name.
     bindE (decode_string ''type'' (map_of m ''type'')) (\<lambda>type.
     bindE (decode_slice ''endpoints'' decode_Endpoint (map_of m ''endpoints'')) (\<lambda>endpoints.
     Inr \<lparr>Name = name, Type = type, Endpoints = endpoints\<rparr>)))"

definition decode_CatalogEntry :: "val \<Rightarrow> error + CatalogEntry" where
  "decode_CatalogEntry v =
     decode_struct ''serviceCatalog'' zero_CatalogEntry decode_CatalogEntry_fields (Some v)"

text \<open>The decode of line 123, into the response struct of lines 117--121.\<close>

definition Decode_catalog_response :: "(string \<times> val) list \<Rightarrow> error + catalog_response" where
  "Decode_catalog_response resp =
     decode_struct ''access'' \<lparr>access_Entries = []\<rparr>
       (\<lambda>access.
          bindE (decode_slice ''serviceCatalog'' decode_CatalogEntry (map_of access ''serviceCatalog''))
            (\<lambda>entries. Inr \<lparr>access_Entries = entries\<rparr>))
       (map_of resp ''access'')"

text \<open>
  The decode of line 94, into the response struct of lines 84--92. The tenant record is
  decoded by \<open>decode_Tenant_fields\<close>, with \<open>zero_Tenant\<close> its zero value.
\<close>

definition Decode_token_response ::
  "((string \<times> val) list \<Rightarrow> error + 't) \<Rightarrow> 't \<Rightarrow> (string \<times> val) list \<Rightarrow> error + 't token_response" where
  "Decode_token_response decode_Tenant_fields zero_Tenant resp =
     decode_struct ''access'' \<lparr>token_Expires = [], token_ID = [], token_Tenant = zero_Tenant\<rparr>
       (\<lambda>access.
          decode_struct ''token'' \<lparr>token_Expires = [], token_ID = [], token_Tenant = zero_Tenant\<rparr>
            (\<lambda>token.
               bindE (decode_string ''expires'' (map_of token ''expires'')) (\<lambda>expires.
               bindE (decode_string ''id'' (map_of token ''id'')) (\<lambda>id.
               bindE (decode_struct ''tenant'' zero_Tenant decode_Tenant_fields (map_of token ''tenant''))
                 (\<lambda>tenant.
               Inr \<lparr>token_Expires = expires, token_ID = id, token_Tenant = tenant\<rparr>))))
            (map_of access ''token''))
       (map_of resp ''access'')"

subsection \<open>The timestamp format\<close>

text \<open>
  Modelled from the spec: \<^verbatim>\<open>time.Parse\<close> belongs to the standard library and the layout
  \<^verbatim>\<open>gophercloud.RFC3339Milli\<close> to the parent package. The spec fixes the format as an
  ISO-8601 timestamp with millisecond fraction, as in \<^verbatim>\<open>2024-01-02T03:04:05.678Z\<close>, with
  no fallback format and no truncation tolerance: four digits, two, two, \<^verbatim>\<open>T\<close>, two, two,
  two, three digits and \<^verbatim>\<open>Z\<close>, with the separators in place and every field in its
  calendar range. Anything else is a \<open>ParseError\<close> carrying the rejected text.
\<close>

definition is_digit :: "char \<Rightarrow> bool" where
  "is_digit c \<longleftrightarrow> 48 \<le> (of_char c :: nat) \<and> (of_char c :: nat) \<le> 57"

definition number_of_digits :: "string \<Rightarrow> nat option" where
  "number_of_digits s =
     (if s \<noteq> [] \<and> list_all is_digit s
      then Some (foldl (\<lambda>n c. 10 * n + (of_char c - 48)) 0 s) else None)"

definition is_leap :: "nat \<Rightarrow> bool" where
  "is_leap y \<longleftrightarrow> y mod 4 = 0 \<and> (y mod 100 \<noteq> 0 \<or> y mod 400 = 0)"

definition days_in :: "nat \<Rightarrow> nat \<Rightarrow> nat" where
  "days_in y m =
     (if m = 2 then (if is_leap y then 29 else 28)
      else if m = 4 \<or> m = 6 \<or> m = 9 \<or> m = 11 then 30 else 31)"

definition Parse_RFC3339Milli :: "string \<Rightarrow> error + Time" where
  "Parse_RFC3339Milli value =
     (if length value = 24 \<and> map (\<lambda>i. value ! i) [4, 7, 10, 13, 16, 19, 23] = ''--T::.Z''
      then
        (case (number_of_digits (take 4 value),
               number_of_digits (take 2 (drop 5 value)),
               number_of_digits (take 2 (drop 8 value)),
               number_of_digits (take 2 (drop 11 value)),
               number_of_digits (take 2 (drop 14 value)),
               number_of_digits (take 2 (drop 17 value)),
               number_of_digits (take 3 (drop 20 value))) of
           (Some y, Some mo, Some d, Some h, Some mi, Some s, Some ms) \<Rightarrow>
             if 1 \<le> mo \<and> mo \<le> 12 \<and> 1 \<le> d \<and> d \<le> days_in y mo \<and> h \<le> 23 \<and> mi \<le> 59 \<and> s \<le> 59
             then Inr \<lparr>t_year = y, t_month = mo, t_day = d, t_hour = h, t_minute = mi,
                      t_second = s, t_millisecond = ms\<rparr>
             else Inl (ParseError value)
         | _ \<Rightarrow> Inl (ParseError value))
      else Inl (ParseError value))"

subsection \<open>Example data\<close>

definition mk_endpoint :: "string \<Rightarrow> string \<Rightarrow> string \<Rightarrow> string \<Rightarrow> Endpoint" where
  "mk_endpoint region pub internal admin =
     \<lparr>TenantID = [], PublicURL = pub, InternalURL = internal, AdminURL = admin,
      Region = region, VersionID = [], VersionInfo = [], VersionList = []\<rparr>"

definition dfw_endpoint :: Endpoint where
  "dfw_endpoint = mk_endpoint ''DFW'' ''http://dfw/v1'' ''http://dfw.internal/v1/'' []"

definition ord_endpoint :: Endpoint where
  "ord_endpoint = mk_endpoint ''ORD'' ''http://ord/v1'' ''http://ord.internal/v1'' []"

definition example_catalog :: ServiceCatalog where
  "example_catalog =
     \<lparr>Entries = [\<lparr>Name = ''nova'', Type = ''compute'', Endpoints = [dfw_endpoint]\<rparr>,
                 \<lparr>Name = ''swift'', Type = ''object-store'', Endpoints = []\<rparr>,
                 \<lparr>Name = ''nova2'', Type = ''compute'', Endpoints = [ord_endpoint]\<rparr>]\<rparr>"

definition query :: "string \<Rightarrow> string \<Rightarrow> string \<Rightarrow> Availability \<Rightarrow> EndpointOpts" where
  "query t n r a = \<lparr>opts_Type = t, opts_Name = n, opts_Region = r, opts_Availability = a\<rparr>"

text \<open>
  Modelled from the spec: \<^verbatim>\<open>gophercloud.NormalizeURL\<close> is declared in the parent package.
  The spec (4.3) describes a pure, deterministic string transform, total over any input
  string, that trims trailing separators, and has (4.2, 8, 9) an empty URL field returned
  as the empty string: the trailing slashes of the URL are removed, and the empty string
  stays empty.
\<close>

definition NormalizeURL_trim :: "string \<Rightarrow> string" where
  "NormalizeURL_trim url = rev (dropWhile (\<lambda>c. c = CHR ''/'') (rev url))"

text \<open>An example tenant: only its \<^verbatim>\<open>id\<close>, a string.\<close>

definition decode_example_tenant :: "(string \<times> val) list \<Rightarrow> error + string" where
  "decode_example_tenant m = decode_string ''id'' (map_of m ''id'')"

definition token_payload :: "val \<Rightarrow> val \<Rightarrow> (string \<times> val) list" where
  "token_payload expires ident =
     [(''access'', VObject [(''token'', VObject [(''id'', ident), (''expires'', expires),
                                                (''tenant'', VObject [(''id'', VString ''t1'')])])])]"

subsection \<open>The filter\<close>

lemma append_region_matches_eq:
  "append_region_matches opts entry acc = acc @ filter (endpoint_matches opts) (Endpoints entry)"
proof -
  have "fold (\<lambda>endpoint acc.
               if opts_Region opts = [] \<or> Region endpoint = opts_Region opts
               then acc @ [endpoint] else acc) eps acc
        = acc @ filter (endpoint_matches opts) eps" for eps
    by (induction eps arbitrary: acc) (simp_all add: endpoint_matches_def)
  then show ?thesis
    by (simp add: append_region_matches_def)
qed

lemma fold_entries_eq:
  "fold (\<lambda>entry acc.
           if Type entry = opts_Type opts \<and> (opts_Name opts = [] \<or> Name entry = opts_Name opts)
           then append_region_matches opts entry acc else acc) es acc
   = acc @ concat (map (\<lambda>entry. filter (endpoint_matches opts) (Endpoints entry))
                       (filter (entry_matches opts) es))"
  by (induction es arbitrary: acc)
     (auto simp add: entry_matches_def append_region_matches_eq)

lemma matching_endpoints_spec:
  "matching_endpoints catalog opts = spec_filtered_endpoints catalog opts"
  by (simp add: matching_endpoints_def spec_filtered_endpoints_def fold_entries_eq)

lemma LocateEndpointURL_one:
  assumes "matching_endpoints catalog opts = [endpoint]"
  shows "LocateEndpointURL NormalizeURL catalog opts =
           (case url_for (opts_Availability opts) endpoint of
              Some url \<Rightarrow> Inr (NormalizeURL url)
            | None \<Rightarrow> Inl (ErrorfUnexpectedAvailability (opts_Availability opts)))"
  using assms by (cases "opts_Availability opts") (simp_all add: LocateEndpointURL_def)

lemma LocateEndpointURL_none:
  assumes "matching_endpoints catalog opts = []"
  shows "LocateEndpointURL NormalizeURL catalog opts = Inl ErrEndpointNotFound"
  using assms by (simp add: LocateEndpointURL_def)

lemma LocateEndpointURL_many:
  assumes "length (matching_endpoints catalog opts) > 1"
  shows "LocateEndpointURL NormalizeURL catalog opts =
           Inl (ErrorfDiscovered (length (matching_endpoints catalog opts))
                                 (matching_endpoints catalog opts))"
  using assms by (auto simp add: LocateEndpointURL_def Let_def)

lemma query_sel:
  "opts_Type (query t n r a) = t" "opts_Name (query t n r a) = n"
  "opts_Region (query t n r a) = r" "opts_Availability (query t n r a) = a"
  by (simp_all add: query_def)

lemma filtered_dfw:
  "spec_filtered_endpoints example_catalog (query ''compute'' [] ''DFW'' a) = [dfw_endpoint]"
  by (simp add: spec_filtered_endpoints_def entry_matches_def endpoint_matches_def
        example_catalog_def dfw_endpoint_def ord_endpoint_def mk_endpoint_def query_def)

lemma filtered_compute:
  "spec_filtered_endpoints example_catalog (query ''compute'' [] [] a)
     = [dfw_endpoint, ord_endpoint]"
  by (simp add: spec_filtered_endpoints_def entry_matches_def endpoint_matches_def
        example_catalog_def dfw_endpoint_def ord_endpoint_def mk_endpoint_def query_def)

lemma filtered_unknown_name:
  "spec_filtered_endpoints example_catalog (query ''compute'' ''neutron'' [] a) = []"
  by (simp add: spec_filtered_endpoints_def entry_matches_def endpoint_matches_def
        example_catalog_def dfw_endpoint_def ord_endpoint_def mk_endpoint_def query_def)

lemma no_type_no_endpoint:
  assumes "\<forall>entry \<in> set (Entries catalog). Type entry \<noteq> opts_Type opts"
  shows "spec_filtered_endpoints catalog opts = []"
proof -
  have "filter (entry_matches opts) (Entries catalog) = []"
    using assms by (simp add: filter_empty_conv entry_matches_def)
  then show ?thesis
    by (simp add: spec_filtered_endpoints_def)
qed

subsection \<open>The resolver\<close>

text \<open>
  C1. When the filtering of steps 1--3 leaves exactly one endpoint and the availability of
  the query is Public, Internal or Admin, \<open>LocateEndpointURL\<close> returns, with no error, the
  normalisation of that endpoint's \<open>PublicURL\<close>, \<open>InternalURL\<close> or \<open>AdminURL\<close> respectively.
\<close>

theorem LocateEndpointURL_unique:
  assumes "spec_filtered_endpoints catalog opts = [endpoint]"
  shows "(opts_Availability opts = AvailabilityPublic \<longrightarrow>
            LocateEndpointURL NormalizeURL catalog opts = Inr (NormalizeURL (PublicURL endpoint)))
       \<and> (opts_Availability opts = AvailabilityInternal \<longrightarrow>
            LocateEndpointURL NormalizeURL catalog opts = Inr (NormalizeURL (InternalURL endpoint)))
       \<and> (opts_Availability opts = AvailabilityAdmin \<longrightarrow>
            LocateEndpointURL NormalizeURL catalog opts = Inr (NormalizeURL (AdminURL endpoint)))"
proof -
  have "matching_endpoints catalog opts = [endpoint]"
    using assms by (simp add: matching_endpoints_spec)
  then show ?thesis
    by (simp add: LocateEndpointURL_one)
qed

theorem LocateEndpointURL_unique_witness:
  "spec_filtered_endpoints example_catalog (query ''compute'' [] ''DFW'' AvailabilityPublic)
     = [dfw_endpoint]
   \<and> LocateEndpointURL NormalizeURL_trim example_catalog
        (query ''compute'' [] ''DFW'' AvailabilityPublic) = Inr ''http://dfw/v1''
   \<and> LocateEndpointURL NormalizeURL_trim example_catalog
        (query ''compute'' [] ''DFW'' AvailabilityInternal) = Inr ''http://dfw.internal/v1''
   \<and> LocateEndpointURL id example_catalog
        (query ''compute'' [] ''DFW'' AvailabilityAdmin) = Inr []"
  using LocateEndpointURL_unique
          [OF filtered_dfw [of AvailabilityPublic], of NormalizeURL_trim]
        LocateEndpointURL_unique
          [OF filtered_dfw [of AvailabilityInternal], of NormalizeURL_trim]
        LocateEndpointURL_unique [OF filtered_dfw [of AvailabilityAdmin], of id]
        filtered_dfw [of AvailabilityPublic]
  by (simp add: query_sel dfw_endpoint_def mk_endpoint_def NormalizeURL_trim_def)

text \<open>
  C2. The endpoints \<open>LocateEndpointURL\<close> considers, the list its two nested loops build,
  are exactly the endpoints, in entry-then-endpoint traversal order, of the entries with
  the type of the query and, when the query names one, its name, that have the region of
  the query when the query gives one.
\<close>

theorem matching_endpoints_filter:
  "matching_endpoints catalog opts =
     concat (map (\<lambda>entry. filter (endpoint_matches opts) (Endpoints entry))
                 (filter (entry_matches opts) (Entries catalog)))
   \<and> matching_endpoints catalog opts = spec_filtered_endpoints catalog opts"
  using matching_endpoints_spec [of catalog opts]
  by (simp add: spec_filtered_endpoints_def)

theorem matching_endpoints_filter_witness:
  "matching_endpoints example_catalog (query ''compute'' ''nova2'' [] AvailabilityPublic)
     = [ord_endpoint]"
  using matching_endpoints_filter
          [of example_catalog "query ''compute'' ''nova2'' [] AvailabilityPublic"]
  by (simp add: entry_matches_def endpoint_matches_def
        example_catalog_def dfw_endpoint_def ord_endpoint_def mk_endpoint_def query_def)

text \<open>
  C3. When the filtering leaves more than one endpoint, \<open>LocateEndpointURL\<close> fails with the
  error that reports the number of matching endpoints and the whole list of them, and
  returns no URL.
\<close>

theorem LocateEndpointURL_ambiguous:
  assumes "length (spec_filtered_endpoints catalog opts) > 1"
  shows "LocateEndpointURL NormalizeURL catalog opts =
           Inl (ErrorfDiscovered (length (spec_filtered_endpoints catalog opts))
                                 (spec_filtered_endpoints catalog opts))
       \<and> (\<forall>url. LocateEndpointURL NormalizeURL catalog opts \<noteq> Inr url)"
  using assms LocateEndpointURL_many [of catalog opts NormalizeURL]
  by (simp add: matching_endpoints_spec)

theorem LocateEndpointURL_ambiguous_witness:
  "length (spec_filtered_endpoints example_catalog (query ''compute'' [] [] AvailabilityPublic)) > 1
   \<and> LocateEndpointURL NormalizeURL_trim example_catalog
        (query ''compute'' [] [] AvailabilityPublic)
       = Inl (ErrorfDiscovered 2 [dfw_endpoint, ord_endpoint])"
proof -
  have h: "length (spec_filtered_endpoints example_catalog
                     (query ''compute'' [] [] AvailabilityPublic)) > 1"
    by (simp add: filtered_compute)
  from LocateEndpointURL_ambiguous [OF h, of NormalizeURL_trim] h
  show ?thesis
    by (simp add: filtered_compute)
qed

text \<open>
  C4. When the filtering leaves no endpoint, and in particular when no entry of the catalog
  has the type of the query, \<open>LocateEndpointURL\<close> fails with \<open>ErrEndpointNotFound\<close> and
  returns no URL.
\<close>

theorem LocateEndpointURL_not_found:
  assumes "spec_filtered_endpoints catalog opts = []
           \<or> (\<forall>entry \<in> set (Entries catalog). Type entry \<noteq> opts_Type opts)"
  shows "LocateEndpointURL NormalizeURL catalog opts = Inl ErrEndpointNotFound
       \<and> (\<forall>url. LocateEndpointURL NormalizeURL catalog opts \<noteq> Inr url)"
proof -
  have "spec_filtered_endpoints catalog opts = []"
    using assms no_type_no_endpoint by blast
  then show ?thesis
    by (simp add: LocateEndpointURL_none matching_endpoints_spec)
qed

theorem LocateEndpointURL_not_found_witness:
  "spec_filtered_endpoints example_catalog (query ''compute'' ''neutron'' [] AvailabilityPublic) = []
   \<and> LocateEndpointURL NormalizeURL_trim example_catalog
        (query ''compute'' ''neutron'' [] AvailabilityPublic) = Inl ErrEndpointNotFound
   \<and> ''dns'' \<notin> set (map Type (Entries example_catalog))
   \<and> LocateEndpointURL NormalizeURL_trim example_catalog
        (query ''dns'' [] [] AvailabilityPublic) = Inl ErrEndpointNotFound"
proof -
  have h1: "spec_filtered_endpoints example_catalog
              (query ''compute'' ''neutron'' [] AvailabilityPublic) = []"
    by (rule filtered_unknown_name)
  have h2: "\<forall>entry \<in> set (Entries example_catalog).
              Type entry \<noteq> opts_Type (query ''dns'' [] [] AvailabilityPublic)"
    by (simp add: example_catalog_def query_sel)
  from LocateEndpointURL_not_found [OF disjI1 [OF h1], of NormalizeURL_trim]
       LocateEndpointURL_not_found [OF disjI2 [OF h2], of NormalizeURL_trim] h1
  show ?thesis
    by (simp add: query_sel) (simp add: example_catalog_def)
qed

text \<open>
  C5. When the availability of the query is none of Public, Internal and Admin:
  with no endpoint left by the filtering \<open>LocateEndpointURL\<close> fails with
  \<open>ErrEndpointNotFound\<close>, with more than one it fails with the ambiguity error, and with
  exactly one, and only then, it fails with the unexpected-availability error.
\<close>

theorem LocateEndpointURL_invalid_availability:
  assumes "opts_Availability opts \<notin> {AvailabilityPublic, AvailabilityInternal, AvailabilityAdmin}"
  shows "(length (spec_filtered_endpoints catalog opts) = 0 \<longrightarrow>
            LocateEndpointURL NormalizeURL catalog opts = Inl ErrEndpointNotFound)
       \<and> (length (spec_filtered_endpoints catalog opts) > 1 \<longrightarrow>
            LocateEndpointURL NormalizeURL catalog opts =
              Inl (ErrorfDiscovered (length (spec_filtered_endpoints catalog opts))
                                    (spec_filtered_endpoints catalog opts)))
       \<and> (length (spec_filtered_endpoints catalog opts) = 1 \<longleftrightarrow>
            LocateEndpointURL NormalizeURL catalog opts =
              Inl (ErrorfUnexpectedAvailability (opts_Availability opts)))"
proof -
  obtain s where s: "opts_Availability opts = AvailabilityOther s"
    using assms by (cases "opts_Availability opts") simp_all
  let ?eps = "spec_filtered_endpoints catalog opts"
  let ?result = "LocateEndpointURL NormalizeURL catalog opts"
  have eq: "matching_endpoints catalog opts = ?eps"
    by (rule matching_endpoints_spec)
  have none: "?result = Inl ErrEndpointNotFound" if "length ?eps = 0"
    using that eq by (simp add: LocateEndpointURL_none)
  have many: "?result = Inl (ErrorfDiscovered (length ?eps) ?eps)" if "length ?eps > 1"
    using that LocateEndpointURL_many [of catalog opts NormalizeURL] by (simp only: eq)
  have one: "?result = Inl (ErrorfUnexpectedAvailability (opts_Availability opts))"
    if "length ?eps = 1"
  proof -
    from that have "\<exists>endpoint. ?eps = [endpoint]"
      by (simp add: length_Suc_conv)
    then obtain endpoint where "?eps = [endpoint]" ..
    then have "matching_endpoints catalog opts = [endpoint]"
      by (simp only: eq)
    then show ?thesis
      using s by (simp add: LocateEndpointURL_one)
  qed
  have only: "length ?eps = 1"
    if r: "?result = Inl (ErrorfUnexpectedAvailability (opts_Availability opts))"
  proof -
    have "length ?eps \<noteq> 0"
      using none r by fastforce
    moreover have "\<not> length ?eps > 1"
      using many r by fastforce
    ultimately show ?thesis
      by arith
  qed
  show ?thesis
    using none many one only by blast
qed

theorem LocateEndpointURL_invalid_availability_witness:
  "AvailabilityOther ''private'' \<notin> {AvailabilityPublic, AvailabilityInternal, AvailabilityAdmin}
   \<and> LocateEndpointURL NormalizeURL_trim example_catalog
        (query ''compute'' ''neutron'' [] (AvailabilityOther ''private'')) = Inl ErrEndpointNotFound
   \<and> LocateEndpointURL NormalizeURL_trim example_catalog
        (query ''compute'' [] [] (AvailabilityOther ''private''))
       = Inl (ErrorfDiscovered 2 [dfw_endpoint, ord_endpoint])
   \<and> LocateEndpointURL NormalizeURL_trim example_catalog
        (query ''compute'' [] ''DFW'' (AvailabilityOther ''private''))
       = Inl (ErrorfUnexpectedAvailability (AvailabilityOther ''private''))"
proof -
  have h: "opts_Availability (query t n r (AvailabilityOther ''private''))
             \<notin> {AvailabilityPublic, AvailabilityInternal, AvailabilityAdmin}" for t n r
    by (simp add: query_sel)
  from LocateEndpointURL_invalid_availability
         [OF h, of example_catalog "''compute''" "''neutron''" "[]" NormalizeURL_trim]
       LocateEndpointURL_invalid_availability
         [OF h, of example_catalog "''compute''" "[]" "[]" NormalizeURL_trim]
       LocateEndpointURL_invalid_availability
         [OF h, of example_catalog "''compute''" "[]" "''DFW''" NormalizeURL_trim]
  show ?thesis
    by (simp add: filtered_unknown_name filtered_compute filtered_dfw query_sel)
qed

text \<open>
  C6. When the filtering leaves exactly one endpoint and its URL field for the availability
  of the query is the empty string, \<open>LocateEndpointURL\<close> returns, with no error, the
  normalisation of the empty string, whatever the normalisation is; with the normalisation
  the specification describes, which leaves the empty string as it is, the result is the
  empty string: an unconfigured URL is not told apart from a configured one and is no
  error.
\<close>

theorem LocateEndpointURL_unconfigured:
  assumes "spec_filtered_endpoints catalog opts = [endpoint]"
      and "url_for (opts_Availability opts) endpoint = Some []"
  shows "LocateEndpointURL NormalizeURL catalog opts = Inr (NormalizeURL [])
       \<and> LocateEndpointURL NormalizeURL_trim catalog opts = Inr []"
proof -
  have "matching_endpoints catalog opts = [endpoint]"
    using assms(1) by (simp add: matching_endpoints_spec)
  then have "LocateEndpointURL N catalog opts = Inr (N [])" for N
    using assms(2) by (simp add: LocateEndpointURL_one)
  then show ?thesis
    by (simp add: NormalizeURL_trim_def)
qed

theorem LocateEndpointURL_unconfigured_witness:
  "spec_filtered_endpoints example_catalog (query ''compute'' [] ''DFW'' AvailabilityAdmin)
     = [dfw_endpoint]
   \<and> url_for (opts_Availability (query ''compute'' [] ''DFW'' AvailabilityAdmin)) dfw_endpoint
       = Some []
   \<and> LocateEndpointURL NormalizeURL_trim example_catalog
        (query ''compute'' [] ''DFW'' AvailabilityAdmin) = Inr []"
proof -
  have h1: "spec_filtered_endpoints example_catalog
              (query ''compute'' [] ''DFW'' AvailabilityAdmin) = [dfw_endpoint]"
    by (rule filtered_dfw)
  have h2: "url_for (opts_Availability (query ''compute'' [] ''DFW'' AvailabilityAdmin))
              dfw_endpoint = Some []"
    by (simp add: query_sel dfw_endpoint_def mk_endpoint_def)
  from LocateEndpointURL_unconfigured [OF h1 h2, of NormalizeURL_trim] h1 h2
  show ?thesis
    by (simp add: NormalizeURL_trim_def)
qed

subsection \<open>The decode operations\<close>

lemma Parse_not_a_date:
  "Parse_RFC3339Milli ''not-a-date'' = Inl (ParseError ''not-a-date'')"
  by (simp add: Parse_RFC3339Milli_def)

lemma Parse_empty:
  "Parse_RFC3339Milli [] = Inl (ParseError [])"
  by (simp add: Parse_RFC3339Milli_def)

lemma Parse_example:
  "Parse_RFC3339Milli ''2024-01-02T03:04:05.678Z'' =
     Inr \<lparr>t_year = 2024, t_month = 1, t_day = 2, t_hour = 3, t_minute = 4, t_second = 5,
          t_millisecond = 678\<rparr>"
  by (simp add: Parse_RFC3339Milli_def number_of_digits_def is_digit_def days_in_def is_leap_def)

lemma Decode_token_payload:
  "Decode_token_response decode_example_tenant [] (token_payload (VString expires) (VString ident))
     = Inr \<lparr>token_Expires = expires, token_ID = ident, token_Tenant = ''t1''\<rparr>"
  by (simp add: Decode_token_response_def token_payload_def bindE_def decode_example_tenant_def)

lemma Decode_token_bad_id:
  "Decode_token_response decode_example_tenant [] (token_payload (VString expires) (VBool True))
     = Inl (DecodeError ''id'')"
  by (simp add: Decode_token_response_def token_payload_def bindE_def decode_example_tenant_def)

text \<open>
  C7. When the result wrapper carries a captured error, \<open>ExtractToken\<close> and
  \<open>ExtractServiceCatalog\<close> both fail with that very error and return no token and no
  catalog; they do so whatever the payload is and whatever the structural decode and the
  timestamp parse would do, so neither is consulted.
\<close>

theorem Extract_captured_error:
  assumes "Err result = Some err"
  shows "ExtractToken Decode_token Parse result = Inl err
       \<and> ExtractServiceCatalog Decode_catalog result = Inl err"
  using assms by (simp add: ExtractToken_def ExtractServiceCatalog_def)

theorem Extract_captured_error_witness:
  "Err (createErr (UpstreamError ''401 Unauthorized'')) = Some (UpstreamError ''401 Unauthorized'')
   \<and> ExtractToken (Decode_token_response decode_example_tenant []) Parse_RFC3339Milli
        (createErr (UpstreamError ''401 Unauthorized'')) = Inl (UpstreamError ''401 Unauthorized'')
   \<and> ExtractServiceCatalog Decode_catalog_response
        (createErr (UpstreamError ''401 Unauthorized'')) = Inl (UpstreamError ''401 Unauthorized'')"
proof -
  have h: "Err (createErr (UpstreamError ''401 Unauthorized''))
             = Some (UpstreamError ''401 Unauthorized'')"
    by (simp add: createErr_def)
  from Extract_captured_error
         [OF h, of "Decode_token_response decode_example_tenant []" Parse_RFC3339Milli
            Decode_catalog_response] h
  show ?thesis
    by simp
qed

text \<open>
  C8, as amended. For a wrapper with no captured error whose payload passes the structural
  decode: when the decoded \<open>expires\<close> string does not parse, \<open>ExtractToken\<close> fails with the
  error of the parse and returns no token; when it parses, \<open>ExtractToken\<close> succeeds with
  \<open>ExpiresAt\<close> the parsed instant and \<open>ID\<close> and \<open>Tenant\<close> as decoded.
\<close>

theorem ExtractToken_expires:
  assumes "Err result = None"
      and "Decode (Resp result) = Inr response"
  shows "(\<forall>err. Parse (token_Expires response) = Inl err \<longrightarrow>
            ExtractToken Decode Parse result = Inl err)
       \<and> (\<forall>expiresTs. Parse (token_Expires response) = Inr expiresTs \<longrightarrow>
            ExtractToken Decode Parse result =
              Inr \<lparr>ID = token_ID response, ExpiresAt = expiresTs,
                   Tenant = token_Tenant response\<rparr>)"
  using assms by (simp add: ExtractToken_def)

theorem ExtractToken_expires_witness:
  "ExtractToken (Decode_token_response decode_example_tenant []) Parse_RFC3339Milli
     \<lparr>Resp = token_payload (VString ''not-a-date'') (VString ''abc''), Err = None\<rparr>
     = Inl (ParseError ''not-a-date'')
   \<and> ExtractToken (Decode_token_response decode_example_tenant []) Parse_RFC3339Milli
       \<lparr>Resp = token_payload (VString ''2024-01-02T03:04:05.678Z'') (VString ''abc''), Err = None\<rparr>
     = Inr \<lparr>ID = ''abc'',
            ExpiresAt = \<lparr>t_year = 2024, t_month = 1, t_day = 2, t_hour = 3, t_minute = 4,
                          t_second = 5, t_millisecond = 678\<rparr>,
            Tenant = ''t1''\<rparr>"
proof -
  let ?Decode = "Decode_token_response decode_example_tenant []"
  let ?bad = "\<lparr>Resp = token_payload (VString ''not-a-date'') (VString ''abc''), Err = None\<rparr>"
  let ?good = "\<lparr>Resp = token_payload (VString ''2024-01-02T03:04:05.678Z'') (VString ''abc''),
                Err = None\<rparr>"
  have e1: "Err ?bad = None" and e2: "Err ?good = None"
    by simp_all
  have d1: "?Decode (Resp ?bad)
              = Inr \<lparr>token_Expires = ''not-a-date'', token_ID = ''abc'', token_Tenant = ''t1''\<rparr>"
    by (simp add: Decode_token_payload)
  have d2: "?Decode (Resp ?good)
              = Inr \<lparr>token_Expires = ''2024-01-02T03:04:05.678Z'', token_ID = ''abc'',
                     token_Tenant = ''t1''\<rparr>"
    by (simp add: Decode_token_payload)
  from ExtractToken_expires
         [where result = ?bad and Decode = ?Decode and Parse = Parse_RFC3339Milli, OF e1 d1]
       ExtractToken_expires
         [where result = ?good and Decode = ?Decode and Parse = Parse_RFC3339Milli, OF e2 d2]
  show ?thesis
    by (simp add: Parse_not_a_date Parse_example)
qed

text \<open>
  C8, as stated, fails: a payload whose \<open>id\<close> is not a string does not pass the
  structural decode, and \<open>ExtractToken\<close> returns the decode error, be the \<open>expires\<close>
  string malformed (no parse error is reported) or conformant (no token is returned).
\<close>

theorem ExtractToken_expires_counterexample:
  "Parse_RFC3339Milli ''not-a-date'' = Inl (ParseError ''not-a-date'')
   \<and> ExtractToken (Decode_token_response decode_example_tenant []) Parse_RFC3339Milli
       \<lparr>Resp = token_payload (VString ''not-a-date'') (VBool True), Err = None\<rparr>
     = Inl (DecodeError ''id'')
   \<and> Parse_RFC3339Milli ''2024-01-02T03:04:05.678Z'' =
       Inr \<lparr>t_year = 2024, t_month = 1, t_day = 2, t_hour = 3, t_minute = 4, t_second = 5,
            t_millisecond = 678\<rparr>
   \<and> ExtractToken (Decode_token_response decode_example_tenant []) Parse_RFC3339Milli
       \<lparr>Resp = token_payload (VString ''2024-01-02T03:04:05.678Z'') (VBool True), Err = None\<rparr>
     = Inl (DecodeError ''id'')"
  by (simp add: Parse_not_a_date Parse_example ExtractToken_def Decode_token_bad_id)




text \<open>
  C10. For a wrapper with no captured error whose payload has no \<open>token\<close> record under
  \<open>access\<close> (or no \<open>access\<close> at all), or has a \<open>token\<close> record without \<open>expires\<close> whose
  \<open>id\<close> and \<open>tenant\<close> decode, the structural decode succeeds, with the empty string for
  \<open>expires\<close> (and zero values throughout when the record is absent), and \<open>ExtractToken\<close>
  fails with the error of parsing the empty string as a timestamp, not with a decode
  error.
\<close>

theorem ExtractToken_missing_expires:
  assumes "Err result = None"
  shows "(map_of (Resp result) ''access'' = None
            \<or> (\<exists>access. map_of (Resp result) ''access'' = Some (VObject access)
                        \<and> map_of access ''token'' = None) \<longrightarrow>
            Decode_token_response decode_Tenant_fields zero_Tenant (Resp result)
              = Inr \<lparr>token_Expires = [], token_ID = [], token_Tenant = zero_Tenant\<rparr>
            \<and> ExtractToken (Decode_token_response decode_Tenant_fields zero_Tenant)
                 Parse_RFC3339Milli result = Inl (ParseError []))
       \<and> (\<forall>access token ident tenant.
            map_of (Resp result) ''access'' = Some (VObject access)
            \<and> map_of access ''token'' = Some (VObject token)
            \<and> map_of token ''expires'' = None
            \<and> decode_string ''id'' (map_of token ''id'') = Inr ident
            \<and> decode_struct ''tenant'' zero_Tenant decode_Tenant_fields (map_of token ''tenant'')
                = Inr tenant \<longrightarrow>
            Decode_token_response decode_Tenant_fields zero_Tenant (Resp result)
              = Inr \<lparr>token_Expires = [], token_ID = ident, token_Tenant = tenant\<rparr>
            \<and> ExtractToken (Decode_token_response decode_Tenant_fields zero_Tenant)
                 Parse_RFC3339Milli result = Inl (ParseError []))"
proof -
  let ?Decode = "Decode_token_response decode_Tenant_fields zero_Tenant"
  have fail: "ExtractToken ?Decode Parse_RFC3339Milli result = Inl (ParseError [])"
    if "?Decode (Resp result) = Inr response" and "token_Expires response = []" for response
    using that assms by (simp add: ExtractToken_def Parse_empty)
  have absent: "?Decode (Resp result)
                  = Inr \<lparr>token_Expires = [], token_ID = [], token_Tenant = zero_Tenant\<rparr>"
    if "map_of (Resp result) ''access'' = None
        \<or> (\<exists>access. map_of (Resp result) ''access'' = Some (VObject access)
                    \<and> map_of access ''token'' = None)"
    using that by (auto simp add: Decode_token_response_def)
  have partial: "?Decode (Resp result)
                   = Inr \<lparr>token_Expires = [], token_ID = ident, token_Tenant = tenant\<rparr>"
    if "map_of (Resp result) ''access'' = Some (VObject access)"
       "map_of access ''token'' = Some (VObject token)"
       "map_of token ''expires'' = None"
       "decode_string ''id'' (map_of token ''id'') = Inr ident"
       "decode_struct ''tenant'' zero_Tenant decode_Tenant_fields (map_of token ''tenant'')
          = Inr tenant"
    for access token ident tenant
    using that by (simp add: Decode_token_response_def bindE_def)
  show ?thesis
  proof (intro conjI allI impI)
    assume a: "map_of (Resp result) ''access'' = None
        \<or> (\<exists>access. map_of (Resp result) ''access'' = Some (VObject access)
                    \<and> map_of access ''token'' = None)"
    show "?Decode (Resp result)
            = Inr \<lparr>token_Expires = [], token_ID = [], token_Tenant = zero_Tenant\<rparr>"
      using a by (rule absent)
    show "ExtractToken ?Decode Parse_RFC3339Milli result = Inl (ParseError [])"
      using absent [OF a] by (rule fail) simp
  next
    fix access token ident tenant
    assume b: "map_of (Resp result) ''access'' = Some (VObject access)
            \<and> map_of access ''token'' = Some (VObject token)
            \<and> map_of token ''expires'' = None
            \<and> decode_string ''id'' (map_of token ''id'') = Inr ident
            \<and> decode_struct ''tenant'' zero_Tenant decode_Tenant_fields (map_of token ''tenant'')
                = Inr tenant"
    then have d: "?Decode (Resp result)
            = Inr \<lparr>token_Expires = [], token_ID = ident, token_Tenant = tenant\<rparr>"
      using partial by blast
    show "?Decode (Resp result)
            = Inr \<lparr>token_Expires = [], token_ID = ident, token_Tenant = tenant\<rparr>"
      by (rule d)
    show "ExtractToken ?Decode Parse_RFC3339Milli result = Inl (ParseError [])"
      using d by (rule fail) simp
  qed
qed

theorem ExtractToken_missing_expires_witness:
  "ExtractToken (Decode_token_response decode_example_tenant []) Parse_RFC3339Milli
     \<lparr>Resp = [], Err = None\<rparr> = Inl (ParseError [])
   \<and> ExtractToken (Decode_token_response decode_example_tenant []) Parse_RFC3339Milli
       \<lparr>Resp = [(''access'', VObject [(''serviceCatalog'', VArray [])])], Err = None\<rparr>
     = Inl (ParseError [])
   \<and> ExtractToken (Decode_token_response decode_example_tenant []) Parse_RFC3339Milli
       \<lparr>Resp = [(''access'', VObject [(''token'', VObject [(''id'', VString ''abc'')])])],
        Err = None\<rparr>
     = Inl (ParseError [])"
proof -
  let ?r1 = "\<lparr>Resp = [], Err = None\<rparr> :: CreateResult"
  let ?r2 = "\<lparr>Resp = [(''access'', VObject [(''serviceCatalog'', VArray [])])], Err = None\<rparr>"
  let ?r3 = "\<lparr>Resp = [(''access'', VObject [(''token'', VObject [(''id'', VString ''abc'')])])],
              Err = None\<rparr>"
  have e: "Err ?r1 = None" "Err ?r2 = None" "Err ?r3 = None"
    by simp_all
  from ExtractToken_missing_expires [OF e(1), of decode_example_tenant "[]"]
       ExtractToken_missing_expires [OF e(2), of decode_example_tenant "[]"]
       ExtractToken_missing_expires [OF e(3), of decode_example_tenant "[]"]
  show ?thesis
    by simp
qed

end
